theory Spec2Isabelle
  imports Complex_Main "HOL-Library.Sublist"
begin

section \<open>JavaScript values\<close>

text \<open>
  A JavaScript number is a double. The model keeps the three special values apart and
  carries every finite double as the real number it denotes; the two zeros are one value,
  as they are for \<^verbatim>\<open>===\<close>. Arithmetic on doubles rounds, so the model never
  computes it with real arithmetic: where the code computes, the operator is a parameter.
\<close>

datatype number = NaN | Infinity | NegInfinity | Num real

text \<open>\<^verbatim>\<open>a === b\<close> on two numbers: \<^verbatim>\<open>NaN\<close> equals nothing, itself included.\<close>

definition strict_eq :: "number \<Rightarrow> number \<Rightarrow> bool" where
  "strict_eq a b = (a \<noteq> NaN \<and> b \<noteq> NaN \<and> a = b)"

text \<open>
  What \<^verbatim>\<open>JSON.parse\<close> returns. An object is the list of its own properties in
  insertion order, each key once (of duplicate keys in the text the parser keeps the last).
\<close>

datatype json =
    JNull
  | JBool bool
  | JNumber number
  | JString string
  | JArray "json list"
  | JObject "(string \<times> json) list"

datatype jsval = Undefined | Value json

datatype js_error = SyntaxError | TypeError

text \<open>
  \<^verbatim>\<open>parsedBody.name\<close>: reading a property of \<^verbatim>\<open>null\<close> throws a TypeError;
  an object yields its own property or \<^verbatim>\<open>undefined\<close> (nothing on the prototype
  chain of a parsed value is called \<^verbatim>\<open>name\<close>); booleans, numbers, strings and
  arrays have no such property.
\<close>

fun dot_name :: "json \<Rightarrow> js_error + jsval" where
  "dot_name JNull = Inl TypeError"
| "dot_name (JObject props) =
     Inr (case map_of props ''name'' of None \<Rightarrow> Undefined | Some v \<Rightarrow> Value v)"
| "dot_name v = Inr Undefined"

text \<open>\<^verbatim>\<open>typeof v === "string"\<close>\<close>

fun isString :: "jsval \<Rightarrow> bool" where
  "isString (Value (JString s)) = True"
| "isString v = False"

text \<open>
  The built-in functions the server calls are parameters of the model:
  \<^verbatim>\<open>JSON.parse\<close> (\<open>None\<close> when it throws its SyntaxError) and
  \<^verbatim>\<open>parseInt(s, 10)\<close>.
\<close>

record runtime =
  JSON_parse :: "string \<Rightarrow> json option"
  parseInt :: "string \<Rightarrow> number"

section \<open>Strings\<close>

text \<open>\<^verbatim>\<open>s.split(sep)\<close> for a one-character separator.\<close>

fun split :: "string \<Rightarrow> char \<Rightarrow> string list" where
  "split [] sep = [[]]"
| "split (c # cs) sep =
     (if c = sep then [] # split cs sep
      else (case split cs sep of [] \<Rightarrow> [[c]] | w # ws \<Rightarrow> (c # w) # ws))"

definition startsWith :: "string \<Rightarrow> string \<Rightarrow> bool" where
  "startsWith s pre = (take (length pre) s = pre)"

text \<open>
  \<^verbatim>\<open>parsedUrl.pathname.split("/")[2]\<close>, as the string \<^verbatim>\<open>parseInt\<close> reads:
  an index out of range gives \<^verbatim>\<open>undefined\<close>, which \<^verbatim>\<open>parseInt\<close> turns into
  the text \<^verbatim>\<open>"undefined"\<close>.
\<close>

definition idSegment :: "string \<Rightarrow> string" where
  "idSegment p =
     (let parts = split p (CHR ''/'')
      in if 2 < length parts then parts ! 2 else ''undefined'')"

section \<open>The item store and the HTTP messages\<close>

record item =
  id_field :: number
  name :: jsval

text \<open>
  A request as the listener sees it once the body has arrived: the method, the
  \<^verbatim>\<open>pathname\<close> that \<^verbatim>\<open>url.parse\<close> returned, where that is a string, and the
  concatenated chunks. The case of a \<^verbatim>\<open>null\<close> pathname is \<open>server\<close> below.
\<close>

record request = "method" :: string  pathname :: string  body :: string

text \<open>
  The response body is kept as the value that is written: the fixed HTML document, or the
  argument of \<^verbatim>\<open>JSON.stringify\<close> (an object with the one property
  \<^verbatim>\<open>message\<close>, or the array of items).
\<close>

datatype payload = HtmlContent | JsonMessage string | JsonItems "item list"

record response =
  status :: nat
  contentType :: string
  content :: payload

definition serveUI :: response where
  "serveUI = \<lparr>status = 200, contentType = ''text/html'', content = HtmlContent\<rparr>"

definition json_response :: "nat \<Rightarrow> payload \<Rightarrow> response" where
  "json_response code p = \<lparr>status = code, contentType = ''application/json'', content = p\<rparr>"

section \<open>The handlers\<close>

text \<open>\<^verbatim>\<open>items.find(pred)\<close>, as the position of the object it returns.\<close>

fun findIndex :: "('a \<Rightarrow> bool) \<Rightarrow> 'a list \<Rightarrow> nat option" where
  "findIndex P [] = None"
| "findIndex P (x # xs) = (if P x then Some 0 else map_option Suc (findIndex P xs))"

text \<open>
  POST on the collection, at the \<^verbatim>\<open>end\<close> event. \<open>now\<close> is what
  \<^verbatim>\<open>Date.now()\<close> returns, a whole number of milliseconds. The body of the
  \<^verbatim>\<open>try\<close> block returns the exception or the new store and the response;
  the \<^verbatim>\<open>catch\<close> answers 400.
\<close>

definition post_try :: "runtime \<Rightarrow> int \<Rightarrow> item list \<Rightarrow> string \<Rightarrow> js_error + (item list \<times> response)" where
  "post_try rt now items b =
     (case JSON_parse rt b of
        None \<Rightarrow> Inl SyntaxError
      | Some parsedBody \<Rightarrow>
          (case dot_name parsedBody of
             Inl e \<Rightarrow> Inl e
           | Inr nm \<Rightarrow>
               Inr (items @ [\<lparr>id_field = Num (of_int now), name = nm\<rparr>],
                    json_response 201 (JsonMessage ''Item added''))))"

definition post_items :: "runtime \<Rightarrow> int \<Rightarrow> item list \<Rightarrow> string \<Rightarrow> item list \<times> response" where
  "post_items rt now items b =
     (case post_try rt now items b of
        Inr r \<Rightarrow> r
      | Inl error \<Rightarrow> (items, json_response 400 (JsonMessage ''Invalid request'')))"

text \<open>
  PUT on one item. The id is read from the path when the request arrives; the store is
  searched at the \<^verbatim>\<open>end\<close> event. The object found is changed in place, which
  in the list is an update at its position.
\<close>

definition put_try :: "runtime \<Rightarrow> item list \<Rightarrow> number \<Rightarrow> string \<Rightarrow> js_error + (item list \<times> response)" where
  "put_try rt items ident b =
     (case JSON_parse rt b of
        None \<Rightarrow> Inl SyntaxError
      | Some parsedBody \<Rightarrow>
          (case findIndex (\<lambda>item. strict_eq (id_field item) ident) items of
             Some i \<Rightarrow>
               (case dot_name parsedBody of
                  Inl e \<Rightarrow> Inl e
                | Inr nm \<Rightarrow>
                    Inr (items[i := (items ! i)\<lparr>name := nm\<rparr>],
                         json_response 200 (JsonMessage ''Item updated'')))
           | None \<Rightarrow> Inr (items, json_response 404 (JsonMessage ''Item not found''))))"

definition put_item :: "runtime \<Rightarrow> item list \<Rightarrow> string \<Rightarrow> string \<Rightarrow> item list \<times> response" where
  "put_item rt items p b =
     (let ident = parseInt rt (idSegment p)
      in case put_try rt items ident b of
           Inr r \<Rightarrow> r
         | Inl error \<Rightarrow> (items, json_response 400 (JsonMessage ''Invalid request'')))"

text \<open>DELETE on one item: \<^verbatim>\<open>items.filter((item) => item.id !== id)\<close>.\<close>

definition delete_item :: "runtime \<Rightarrow> item list \<Rightarrow> string \<Rightarrow> item list \<times> response" where
  "delete_item rt items p =
     (let ident = parseInt rt (idSegment p)
      in (filter (\<lambda>item. \<not> strict_eq (id_field item) ident) items,
          json_response 200 (JsonMessage ''Item deleted'')))"

section \<open>The request listener\<close>

definition requestListener :: "runtime \<Rightarrow> int \<Rightarrow> item list \<Rightarrow> request \<Rightarrow> item list \<times> response" where
  "requestListener rt now items req =
     (if pathname req = ''/'' then (items, serveUI)
      else if pathname req = ''/items'' \<and> method req = ''GET'' then
        (items, json_response 200 (JsonItems items))
      else if pathname req = ''/items'' \<and> method req = ''POST'' then
        post_items rt now items (body req)
      else if startsWith (pathname req) ''/items/'' \<and> method req = ''PUT'' then
        put_item rt items (pathname req) (body req)
      else if startsWith (pathname req) ''/items/'' \<and> method req = ''DELETE'' then
        delete_item rt items (pathname req)
      else (items, json_response 404 (JsonMessage ''Not Found'')))"

text \<open>
  The listener on what \<^verbatim>\<open>url.parse\<close> can really return: the \<^verbatim>\<open>pathname\<close> is a
  string or \<^verbatim>\<open>null\<close> (\<open>None\<close>), as for the request target \<^verbatim>\<open>foo://host\<close>.
  The three \<^verbatim>\<open>===\<close> tests are false for \<^verbatim>\<open>null\<close>; the fourth test calls
  \<^verbatim>\<open>startsWith\<close> on it before it looks at the method, which throws a TypeError
  outside every \<^verbatim>\<open>try\<close>: no response is written.
\<close>

record incoming =
  request_method :: string
  parsedUrl_pathname :: "string option"
  request_body :: string

definition server :: "runtime \<Rightarrow> int \<Rightarrow> item list \<Rightarrow> incoming \<Rightarrow> js_error + (item list \<times> response)" where
  "server rt now items inc =
     (if parsedUrl_pathname inc = Some ''/'' then Inr (items, serveUI)
      else if parsedUrl_pathname inc = Some ''/items'' \<and> request_method inc = ''GET'' then
        Inr (items, json_response 200 (JsonItems items))
      else if parsedUrl_pathname inc = Some ''/items'' \<and> request_method inc = ''POST'' then
        Inr (post_items rt now items (request_body inc))
      else
        (case parsedUrl_pathname inc of
           None \<Rightarrow> Inl TypeError
         | Some p \<Rightarrow>
             (if startsWith p ''/items/'' \<and> request_method inc = ''PUT'' then
                Inr (put_item rt items p (request_body inc))
              else if startsWith p ''/items/'' \<and> request_method inc = ''DELETE'' then
                Inr (delete_item rt items p)
              else Inr (items, json_response 404 (JsonMessage ''Not Found'')))))"

text \<open>
  The server over its lifetime: the store starts empty and each request, with the clock
  reading at its \<^verbatim>\<open>end\<close> event, is handled in turn. A request whose pathname is
  \<^verbatim>\<open>null\<close> throws before the store is touched, so the stores reached are those
  reached by requests whose pathname is a string.
\<close>

fun run :: "runtime \<Rightarrow> item list \<Rightarrow> (int \<times> request) list \<Rightarrow> item list" where
  "run rt items [] = items"
| "run rt items ((now, req) # rest) = run rt (fst (requestListener rt now items req)) rest"

text \<open>The five tests of the listener's \<^verbatim>\<open>if\<close> chain, in its order.\<close>

definition route_tests :: "request \<Rightarrow> bool list" where
  "route_tests req =
     [pathname req = ''/'',
      pathname req = ''/items'' \<and> method req = ''GET'',
      pathname req = ''/items'' \<and> method req = ''POST'',
      startsWith (pathname req) ''/items/'' \<and> method req = ''PUT'',
      startsWith (pathname req) ''/items/'' \<and> method req = ''DELETE'']"

text \<open>\<^verbatim>\<open>Number.isInteger(n)\<close>\<close>

fun isInteger :: "number \<Rightarrow> bool" where
  "isInteger (Num x) = (of_int \<lfloor>x\<rfloor> = x)"
| "isInteger n = False"

section \<open>The calculator\<close>

text \<open>
  \<^verbatim>\<open>Calculate\<close> of \<^verbatim>\<open>final1.js\<close> returns a number or a message. The
  arithmetic of doubles is a parameter: one operator for each the function uses.
\<close>

record arithmetic =
  plus_op :: "number \<Rightarrow> number \<Rightarrow> number"
  minus_op :: "number \<Rightarrow> number \<Rightarrow> number"
  divide_op :: "number \<Rightarrow> number \<Rightarrow> number"
  times_op :: "number \<Rightarrow> number \<Rightarrow> number"
  remainder_op :: "number \<Rightarrow> number \<Rightarrow> number"
  Math_pow :: "number \<Rightarrow> number \<Rightarrow> number"
  Math_sqrt :: "number \<Rightarrow> number"

datatype calc_result = Number number | Text string

text \<open>\<^verbatim>\<open>num1 < 0\<close>: false for \<^verbatim>\<open>NaN\<close> and for positive infinity.\<close>

fun less_zero :: "number \<Rightarrow> bool" where
  "less_zero (Num x) = (x < 0)"
| "less_zero NegInfinity = True"
| "less_zero n = False"

definition Calculate :: "arithmetic \<Rightarrow> number \<Rightarrow> number \<Rightarrow> string \<Rightarrow> calc_result" where
  "Calculate ar num1 num2 operation =
     (if operation = ''add'' then Number (plus_op ar num1 num2)
      else if operation = ''sub'' then Number (minus_op ar num1 num2)
      else if operation = ''div'' then
        (if strict_eq num2 (Num 0) then Text ''Error: Division by zero!''
         else Number (divide_op ar num1 num2))
      else if operation = ''mul'' then Number (times_op ar num1 num2)
      else if operation = ''rem'' then Number (remainder_op ar num1 num2)
      else if operation = ''pow'' then Number (Math_pow ar num1 num2)
      else if operation = ''sqrt'' then
        (if less_zero num1 then Text ''Error: Cannot compute the square root of a negative number!''
         else Number (Math_sqrt ar num1))
      else Text ''Invalid operator'')"

section \<open>A concrete runtime for evaluation\<close>

text \<open>
  \<^verbatim>\<open>parseInt(s, 10)\<close> on the strings used below: leading white space is skipped, a
  sign is read, then the longest run of decimal digits; no digit gives \<^verbatim>\<open>NaN\<close>.
  The value is exact, which the runtime's is for every digit run below \<open>2 ^ 53\<close>.
\<close>

definition isWhiteSpace :: "char \<Rightarrow> bool" where
  "isWhiteSpace c = (c \<in> set [CHR '' '', CHR 0x09, CHR 0x0A, CHR 0x0B, CHR 0x0C, CHR 0x0D])"

definition isDigit :: "char \<Rightarrow> bool" where
  "isDigit c = (48 \<le> (of_char c :: nat) \<and> (of_char c :: nat) \<le> 57)"

definition digits_value :: "string \<Rightarrow> int" where
  "digits_value ds = foldl (\<lambda>acc c. 10 * acc + (of_char c - 48)) 0 ds"

definition parseInt_decimal :: "string \<Rightarrow> number" where
  "parseInt_decimal s =
     (let t = dropWhile isWhiteSpace s;
          neg = (case t of c # r \<Rightarrow> c = CHR ''-'' | [] \<Rightarrow> False);
          u = (case t of c # r \<Rightarrow> (if c = CHR ''-'' \<or> c = CHR ''+'' then r else t) | [] \<Rightarrow> t);
          ds = takeWhile isDigit u
      in if ds = [] then NaN
         else Num (of_int (if neg then - digits_value ds else digits_value ds)))"

text \<open>\<^verbatim>\<open>JSON.parse\<close> on the bodies used below; every other text is taken as malformed.\<close>

definition parse_table :: "(string \<times> json) list" where
  "parse_table =
     [(''{\"name\":\"X\"}'', JObject [(''name'', JString ''X'')]),
      (''{\"name\":\"Y\"}'', JObject [(''name'', JString ''Y'')]),
      (''{}'', JObject []),
      (''null'', JNull),
      (''7'', JNumber (Num 7)),
      (''[]'', JArray [])]"

definition sample_runtime :: runtime where
  "sample_runtime = \<lparr>JSON_parse = map_of parse_table, parseInt = parseInt_decimal\<rparr>"

section \<open>Auxiliary facts\<close>

lemma findIndex_None_iff: "findIndex P xs = None \<longleftrightarrow> (\<forall>x\<in>set xs. \<not> P x)"
  by (induction xs) auto

lemma findIndex_SomeD:
  "findIndex P xs = Some i \<Longrightarrow> i < length xs \<and> P (xs ! i) \<and> (\<forall>j<i. \<not> P (xs ! j))"
proof (induction xs arbitrary: i)
  case Nil
  then show ?case by simp
next
  case (Cons x xs)
  show ?case
  proof (cases "P x")
    case True
    with Cons.prems show ?thesis by simp
  next
    case False
    with Cons.prems obtain k where k: "findIndex P xs = Some k" and i: "i = Suc k"
      by auto
    from Cons.IH [OF k] have "k < length xs" "P (xs ! k)" "\<forall>j<k. \<not> P (xs ! j)"
      by simp_all
    with False i show ?thesis
      by (auto simp: nth_Cons split: nat.splits)
  qed
qed

lemma findIndex_exists:
  "\<exists>x\<in>set xs. P x \<Longrightarrow> \<exists>i. findIndex P xs = Some i"
  using findIndex_None_iff [of P xs] by (cases "findIndex P xs") auto

lemma startsWith_items_not_root:
  "startsWith p ''/items/'' \<Longrightarrow> p \<noteq> ''/'' \<and> p \<noteq> ''/items''"
  by (auto simp: startsWith_def)

lemma listener_get:
  "pathname req = ''/items'' \<Longrightarrow> method req = ''GET'' \<Longrightarrow>
   requestListener rt now items req = (items, json_response 200 (JsonItems items))"
  by (simp add: requestListener_def)

lemma listener_post:
  "pathname req = ''/items'' \<Longrightarrow> method req = ''POST'' \<Longrightarrow>
   requestListener rt now items req = post_items rt now items (body req)"
  by (simp add: requestListener_def)

lemma listener_put:
  "startsWith (pathname req) ''/items/'' \<Longrightarrow> method req = ''PUT'' \<Longrightarrow>
   requestListener rt now items req = put_item rt items (pathname req) (body req)"
  using startsWith_items_not_root [of "pathname req"] by (simp add: requestListener_def)

lemma listener_delete:
  "startsWith (pathname req) ''/items/'' \<Longrightarrow> method req = ''DELETE'' \<Longrightarrow>
   requestListener rt now items req = delete_item rt items (pathname req)"
  using startsWith_items_not_root [of "pathname req"] by (simp add: requestListener_def)

lemma dot_name_defined: "v \<noteq> JNull \<Longrightarrow> \<exists>nm. dot_name v = Inr nm"
  by (cases v) simp_all

section \<open>Deleting\<close>

text \<open>
  C3. A DELETE on \<^verbatim>\<open>/items/{id}\<close> leaves, in any store, exactly the items whose id is
  not strictly equal to the number parsed from the path segment, in their former order
  (so every item with that id goes, however many there are), and answers 200 whether or
  not an item matched.
\<close>

theorem delete_removes_matching:
  assumes "method req = ''DELETE''" and "startsWith (pathname req) ''/items/''"
  shows "requestListener rt now items req =
           (filter (\<lambda>item. \<not> strict_eq (id_field item) (parseInt rt (idSegment (pathname req)))) items,
            json_response 200 (JsonMessage ''Item deleted''))
         \<and> subseq (fst (requestListener rt now items req)) items
         \<and> status (snd (requestListener rt now items req)) = 200"
  using assms by (simp add: listener_delete delete_item_def json_response_def)

theorem delete_removes_matching_witness:
  "requestListener sample_runtime 9
     [\<lparr>id_field = Num 5, name = Undefined\<rparr>, \<lparr>id_field = Num 6, name = Undefined\<rparr>,
      \<lparr>id_field = Num 5, name = Value JNull\<rparr>, \<lparr>id_field = Num 7, name = Undefined\<rparr>]
     \<lparr>method = ''DELETE'', pathname = ''/items/5'', body = ''''\<rparr> =
   ([\<lparr>id_field = Num 6, name = Undefined\<rparr>, \<lparr>id_field = Num 7, name = Undefined\<rparr>],
    json_response 200 (JsonMessage ''Item deleted''))"
  using delete_removes_matching [of "\<lparr>method = ''DELETE'', pathname = ''/items/5'', body = ''''\<rparr>"
      sample_runtime 9
      "[\<lparr>id_field = Num 5, name = Undefined\<rparr>, \<lparr>id_field = Num 6, name = Undefined\<rparr>,
        \<lparr>id_field = Num 5, name = Value JNull\<rparr>, \<lparr>id_field = Num 7, name = Undefined\<rparr>]"]
  by (simp add: startsWith_def idSegment_def sample_runtime_def parseInt_decimal_def
      isWhiteSpace_def isDigit_def digits_value_def strict_eq_def)

text \<open>
  C8. When \<^verbatim>\<open>parseInt\<close> yields \<^verbatim>\<open>NaN\<close> for the path segment, a DELETE leaves any
  store as it is and still answers 200 with the message \<^verbatim>\<open>Item deleted\<close>: no id is
  strictly equal to \<^verbatim>\<open>NaN\<close>.
\<close>

theorem delete_nan_unchanged:
  assumes "method req = ''DELETE''" and "startsWith (pathname req) ''/items/''"
    and "parseInt rt (idSegment (pathname req)) = NaN"
  shows "requestListener rt now items req = (items, json_response 200 (JsonMessage ''Item deleted''))"
  using assms by (simp add: listener_delete delete_item_def strict_eq_def)

theorem delete_nan_unchanged_witness:
  "parseInt sample_runtime (idSegment ''/items/abc'') = NaN \<and>
   requestListener sample_runtime 9
     [\<lparr>id_field = Num 5, name = Undefined\<rparr>, \<lparr>id_field = NaN, name = Undefined\<rparr>]
     \<lparr>method = ''DELETE'', pathname = ''/items/abc'', body = ''''\<rparr> =
   ([\<lparr>id_field = Num 5, name = Undefined\<rparr>, \<lparr>id_field = NaN, name = Undefined\<rparr>],
    json_response 200 (JsonMessage ''Item deleted''))"
  using delete_nan_unchanged [of "\<lparr>method = ''DELETE'', pathname = ''/items/abc'', body = ''''\<rparr>"
      sample_runtime 9
      "[\<lparr>id_field = Num 5, name = Undefined\<rparr>, \<lparr>id_field = NaN, name = Undefined\<rparr>]"]
  by (simp add: startsWith_def idSegment_def sample_runtime_def parseInt_decimal_def
      isWhiteSpace_def isDigit_def digits_value_def)

section \<open>Creating\<close>

text \<open>
  C5. A POST on \<^verbatim>\<open>/items\<close> whose body \<^verbatim>\<open>JSON.parse\<close> rejects is answered 400
  and the store, and so its length, is unchanged.
\<close>

theorem post_unparsable:
  assumes "method req = ''POST''" and "pathname req = ''/items''"
    and "JSON_parse rt (body req) = None"
  shows "requestListener rt now items req = (items, json_response 400 (JsonMessage ''Invalid request''))
         \<and> length (fst (requestListener rt now items req)) = length items
         \<and> status (snd (requestListener rt now items req)) = 400"
  using assms by (simp add: listener_post post_items_def post_try_def json_response_def)

theorem post_unparsable_witness:
  "JSON_parse sample_runtime ''{name:'' = None \<and>
   requestListener sample_runtime 9 [\<lparr>id_field = Num 5, name = Undefined\<rparr>]
     \<lparr>method = ''POST'', pathname = ''/items'', body = ''{name:''\<rparr> =
   ([\<lparr>id_field = Num 5, name = Undefined\<rparr>], json_response 400 (JsonMessage ''Invalid request''))"
  using post_unparsable [of "\<lparr>method = ''POST'', pathname = ''/items'', body = ''{name:''\<rparr>"
      sample_runtime 9 "[\<lparr>id_field = Num 5, name = Undefined\<rparr>]"]
  by (simp add: sample_runtime_def parse_table_def)

text \<open>
  C9. A POST on \<^verbatim>\<open>/items\<close> is answered 400 exactly when the body is rejected by
  \<^verbatim>\<open>JSON.parse\<close> or parses to \<^verbatim>\<open>null\<close>. Every other parsed value is answered
  201 and appends an item whose name is the value's \<^verbatim>\<open>name\<close> property, which is
  \<^verbatim>\<open>undefined\<close> for an object without one and for every number, string, boolean and
  array.
\<close>

theorem post_status_400_iff:
  assumes "method req = ''POST''" and "pathname req = ''/items''"
  shows "(status (snd (requestListener rt now items req)) = 400 \<longleftrightarrow>
            JSON_parse rt (body req) = None \<or> JSON_parse rt (body req) = Some JNull)
         \<and> (\<forall>v. JSON_parse rt (body req) = Some v \<and> v \<noteq> JNull \<longrightarrow>
               (\<exists>nm. dot_name v = Inr nm \<and>
                  requestListener rt now items req =
                    (items @ [\<lparr>id_field = Num (of_int now), name = nm\<rparr>],
                     json_response 201 (JsonMessage ''Item added''))))
         \<and> (\<forall>props. dot_name (JObject props) =
               Inr (case map_of props ''name'' of None \<Rightarrow> Undefined | Some w \<Rightarrow> Value w))
         \<and> (\<forall>n. dot_name (JNumber n) = Inr Undefined)
         \<and> (\<forall>s. dot_name (JString s) = Inr Undefined)
         \<and> (\<forall>b. dot_name (JBool b) = Inr Undefined)
         \<and> (\<forall>vs. dot_name (JArray vs) = Inr Undefined)"
proof -
  have listener: "requestListener rt now items req = post_items rt now items (body req)"
    using assms by (simp add: listener_post)
  have status_iff: "status (snd (post_items rt now items (body req))) = 400 \<longleftrightarrow>
      JSON_parse rt (body req) = None \<or> JSON_parse rt (body req) = Some JNull"
  proof (cases "JSON_parse rt (body req)")
    case None
    then show ?thesis
      by (simp add: post_items_def post_try_def json_response_def)
  next
    case (Some v)
    then show ?thesis
      by (cases v) (simp_all add: post_items_def post_try_def json_response_def)
  qed
  have appended: "\<exists>nm. dot_name v = Inr nm \<and>
      post_items rt now items (body req) =
        (items @ [\<lparr>id_field = Num (of_int now), name = nm\<rparr>],
         json_response 201 (JsonMessage ''Item added''))"
    if "JSON_parse rt (body req) = Some v" and "v \<noteq> JNull" for v
  proof -
    from that(2) obtain nm where "dot_name v = Inr nm"
      using dot_name_defined by blast
    with that(1) show ?thesis
      by (simp add: post_items_def post_try_def)
  qed
  from status_iff appended show ?thesis
    unfolding listener by simp
qed

theorem post_status_400_iff_witness:
  "status (snd (requestListener sample_runtime 9 []
      \<lparr>method = ''POST'', pathname = ''/items'', body = ''null''\<rparr>)) = 400
   \<and> JSON_parse sample_runtime ''null'' = Some JNull
   \<and> JSON_parse sample_runtime ''7'' = Some (JNumber (Num 7))
   \<and> requestListener sample_runtime 9 []
        \<lparr>method = ''POST'', pathname = ''/items'', body = ''7''\<rparr> =
      ([\<lparr>id_field = Num 9, name = Undefined\<rparr>], json_response 201 (JsonMessage ''Item added''))"
  using post_status_400_iff [of "\<lparr>method = ''POST'', pathname = ''/items'', body = ''null''\<rparr>"
      sample_runtime 9 "[]"]
    post_status_400_iff [of "\<lparr>method = ''POST'', pathname = ''/items'', body = ''7''\<rparr>"
      sample_runtime 9 "[]"]
  by (simp add: sample_runtime_def parse_table_def)

text \<open>
  C1, as stated, fails for the body \<^verbatim>\<open>null\<close>: it parses as JSON, yet reading its
  \<^verbatim>\<open>name\<close> throws, nothing is appended and the answer is 400.
\<close>

theorem post_null_counterexample:
  "JSON_parse sample_runtime ''null'' = Some JNull \<and>
   requestListener sample_runtime 1700000000000 []
     \<lparr>method = ''POST'', pathname = ''/items'', body = ''null''\<rparr> =
   ([], json_response 400 (JsonMessage ''Invalid request''))"
  by (simp add: sample_runtime_def parse_table_def requestListener_def post_items_def post_try_def)

text \<open>
  C1, amended. A POST on \<^verbatim>\<open>/items\<close> whose body parses to a JSON value other than
  \<^verbatim>\<open>null\<close> appends exactly one item, with the clock reading as id and the value's
  \<^verbatim>\<open>name\<close> property as name, and is answered 201. A GET on \<^verbatim>\<open>/items\<close> after
  it is answered 200 with the former items followed by that one new item, whose id is an
  integer.
\<close>

theorem post_appends_then_get:
  assumes "method req = ''POST''" and "pathname req = ''/items''"
    and "JSON_parse rt (body req) = Some v" and "v \<noteq> JNull"
    and "method get = ''GET''" and "pathname get = ''/items''"
  shows "\<exists>nm. dot_name v = Inr nm
           \<and> requestListener rt now items req =
               (items @ [\<lparr>id_field = Num (of_int now), name = nm\<rparr>],
                json_response 201 (JsonMessage ''Item added''))
           \<and> requestListener rt later (items @ [\<lparr>id_field = Num (of_int now), name = nm\<rparr>]) get =
               (items @ [\<lparr>id_field = Num (of_int now), name = nm\<rparr>],
                json_response 200 (JsonItems (items @ [\<lparr>id_field = Num (of_int now), name = nm\<rparr>])))"
proof -
  from assms(4) obtain nm where nm: "dot_name v = Inr nm"
    using dot_name_defined by blast
  have post: "requestListener rt now items req =
      (items @ [\<lparr>id_field = Num (of_int now), name = nm\<rparr>],
       json_response 201 (JsonMessage ''Item added''))"
    using assms(1-3) nm by (simp add: listener_post post_items_def post_try_def)
  have "requestListener rt later (items @ [\<lparr>id_field = Num (of_int now), name = nm\<rparr>]) get =
      (items @ [\<lparr>id_field = Num (of_int now), name = nm\<rparr>],
       json_response 200 (JsonItems (items @ [\<lparr>id_field = Num (of_int now), name = nm\<rparr>])))"
    using assms(5,6) by (simp add: listener_get)
  with nm post show ?thesis by blast
qed

theorem post_appends_then_get_witness:
  "JSON_parse sample_runtime ''{\"name\":\"X\"}'' = Some (JObject [(''name'', JString ''X'')])
   \<and> requestListener sample_runtime 1700000000000 [\<lparr>id_field = Num 5, name = Undefined\<rparr>]
        \<lparr>method = ''POST'', pathname = ''/items'', body = ''{\"name\":\"X\"}''\<rparr> =
      ([\<lparr>id_field = Num 5, name = Undefined\<rparr>,
        \<lparr>id_field = Num 1700000000000, name = Value (JString ''X'')\<rparr>],
       json_response 201 (JsonMessage ''Item added''))
   \<and> requestListener sample_runtime 1700000000001
        [\<lparr>id_field = Num 5, name = Undefined\<rparr>,
         \<lparr>id_field = Num 1700000000000, name = Value (JString ''X'')\<rparr>]
        \<lparr>method = ''GET'', pathname = ''/items'', body = ''''\<rparr> =
      ([\<lparr>id_field = Num 5, name = Undefined\<rparr>,
        \<lparr>id_field = Num 1700000000000, name = Value (JString ''X'')\<rparr>],
       json_response 200 (JsonItems [\<lparr>id_field = Num 5, name = Undefined\<rparr>,
        \<lparr>id_field = Num 1700000000000, name = Value (JString ''X'')\<rparr>]))"
proof -
  have parsed: "JSON_parse sample_runtime ''{\"name\":\"X\"}'' = Some (JObject [(''name'', JString ''X'')])"
    by (simp add: sample_runtime_def parse_table_def)
  from post_appends_then_get [of
      "\<lparr>method = ''POST'', pathname = ''/items'', body = ''{\"name\":\"X\"}''\<rparr>"
      sample_runtime "JObject [(''name'', JString ''X'')]"
      "\<lparr>method = ''GET'', pathname = ''/items'', body = ''''\<rparr>"
      1700000000000 "[\<lparr>id_field = Num 5, name = Undefined\<rparr>]" 1700000000001]
  have "\<exists>nm. dot_name (JObject [(''name'', JString ''X'')]) = Inr nm
      \<and> requestListener sample_runtime 1700000000000 [\<lparr>id_field = Num 5, name = Undefined\<rparr>]
          \<lparr>method = ''POST'', pathname = ''/items'', body = ''{\"name\":\"X\"}''\<rparr> =
          ([\<lparr>id_field = Num 5, name = Undefined\<rparr>, \<lparr>id_field = Num 1700000000000, name = nm\<rparr>],
           json_response 201 (JsonMessage ''Item added''))
      \<and> requestListener sample_runtime 1700000000001
          [\<lparr>id_field = Num 5, name = Undefined\<rparr>, \<lparr>id_field = Num 1700000000000, name = nm\<rparr>]
          \<lparr>method = ''GET'', pathname = ''/items'', body = ''''\<rparr> =
          ([\<lparr>id_field = Num 5, name = Undefined\<rparr>, \<lparr>id_field = Num 1700000000000, name = nm\<rparr>],
           json_response 200 (JsonItems
             [\<lparr>id_field = Num 5, name = Undefined\<rparr>, \<lparr>id_field = Num 1700000000000, name = nm\<rparr>]))"
    using parsed by simp
  then show ?thesis
    using parsed by simp
qed

section \<open>Updating\<close>

text \<open>
  C2, as stated, fails for the body \<^verbatim>\<open>null\<close> when an item matches: the body parses
  as JSON and the item is found, yet reading \<^verbatim>\<open>name\<close> of \<^verbatim>\<open>null\<close> throws
  and the answer is 400, not 200.
\<close>

theorem put_null_counterexample:
  "JSON_parse sample_runtime ''null'' = Some JNull
   \<and> strict_eq (id_field \<lparr>id_field = Num 5, name = Value (JString ''X'')\<rparr>)
        (parseInt sample_runtime (idSegment ''/items/5''))
   \<and> requestListener sample_runtime 9 [\<lparr>id_field = Num 5, name = Value (JString ''X'')\<rparr>]
        \<lparr>method = ''PUT'', pathname = ''/items/5'', body = ''null''\<rparr> =
      ([\<lparr>id_field = Num 5, name = Value (JString ''X'')\<rparr>],
       json_response 400 (JsonMessage ''Invalid request''))"
  by (simp add: sample_runtime_def parse_table_def requestListener_def startsWith_def
      put_item_def put_try_def Let_def idSegment_def parseInt_decimal_def isWhiteSpace_def isDigit_def
      digits_value_def strict_eq_def)

text \<open>
  C2, amended. For a PUT on \<^verbatim>\<open>/items/{id}\<close>, with the number parsed from the path
  segment: if the body parses to a JSON value other than \<^verbatim>\<open>null\<close> and some stored
  item has that id, the first such item gets the value's \<^verbatim>\<open>name\<close> property as its
  name and the answer is 200; if the body parses and no stored item has that id, the answer
  is 404 and the store is unchanged; if the body parses to \<^verbatim>\<open>null\<close> and an item has
  that id, or if the body does not parse, the answer is 400 and the store is unchanged.
\<close>

theorem put_outcomes:
  assumes "method req = ''PUT''" and "startsWith (pathname req) ''/items/''"
  shows "(\<forall>v. JSON_parse rt (body req) = Some v \<and> v \<noteq> JNull
             \<and> (\<exists>it\<in>set items. strict_eq (id_field it) (parseInt rt (idSegment (pathname req)))) \<longrightarrow>
           (\<exists>i nm. i < length items
              \<and> strict_eq (id_field (items ! i)) (parseInt rt (idSegment (pathname req)))
              \<and> (\<forall>j<i. \<not> strict_eq (id_field (items ! j)) (parseInt rt (idSegment (pathname req))))
              \<and> dot_name v = Inr nm
              \<and> requestListener rt now items req =
                  (items[i := (items ! i)\<lparr>name := nm\<rparr>],
                   json_response 200 (JsonMessage ''Item updated''))))
       \<and> (\<forall>v. JSON_parse rt (body req) = Some v
             \<and> (\<forall>it\<in>set items. \<not> strict_eq (id_field it) (parseInt rt (idSegment (pathname req)))) \<longrightarrow>
           requestListener rt now items req =
             (items, json_response 404 (JsonMessage ''Item not found'')))
       \<and> (JSON_parse rt (body req) = Some JNull
             \<and> (\<exists>it\<in>set items. strict_eq (id_field it) (parseInt rt (idSegment (pathname req)))) \<longrightarrow>
           requestListener rt now items req =
             (items, json_response 400 (JsonMessage ''Invalid request'')))
       \<and> (JSON_parse rt (body req) = None \<longrightarrow>
           requestListener rt now items req =
             (items, json_response 400 (JsonMessage ''Invalid request'')))"
proof -
  define ident where "ident = parseInt rt (idSegment (pathname req))"
  define matches :: "item \<Rightarrow> bool" where "matches = (\<lambda>item. strict_eq (id_field item) ident)"
  have listener: "requestListener rt now items req =
      (case put_try rt items ident (body req) of
         Inr r \<Rightarrow> r
       | Inl error \<Rightarrow> (items, json_response 400 (JsonMessage ''Invalid request'')))"
    using assms by (simp add: listener_put put_item_def ident_def)
  have found: "\<exists>i nm. i < length items \<and> matches (items ! i) \<and> (\<forall>j<i. \<not> matches (items ! j))
      \<and> dot_name v = Inr nm
      \<and> requestListener rt now items req =
          (items[i := (items ! i)\<lparr>name := nm\<rparr>], json_response 200 (JsonMessage ''Item updated''))"
    if parsed: "JSON_parse rt (body req) = Some v" and "v \<noteq> JNull" and "\<exists>it\<in>set items. matches it"
    for v
  proof -
    from that(3) obtain i where i: "findIndex matches items = Some i"
      using findIndex_exists [of items matches] by blast
    from that(2) obtain nm where nm: "dot_name v = Inr nm"
      using dot_name_defined by blast
    have "requestListener rt now items req =
        (items[i := (items ! i)\<lparr>name := nm\<rparr>], json_response 200 (JsonMessage ''Item updated''))"
      using parsed i nm by (simp add: listener put_try_def matches_def)
    with findIndex_SomeD [OF i] nm show ?thesis by blast
  qed
  have absent: "requestListener rt now items req =
      (items, json_response 404 (JsonMessage ''Item not found''))"
    if parsed: "JSON_parse rt (body req) = Some v" and "\<forall>it\<in>set items. \<not> matches it" for v
  proof -
    from that(2) have "findIndex matches items = None"
      by (simp add: findIndex_None_iff)
    with parsed show ?thesis
      by (simp add: listener put_try_def matches_def)
  qed
  have null_body: "requestListener rt now items req =
      (items, json_response 400 (JsonMessage ''Invalid request''))"
    if parsed: "JSON_parse rt (body req) = Some JNull" and "\<exists>it\<in>set items. matches it"
  proof -
    from that(2) obtain i where "findIndex matches items = Some i"
      using findIndex_exists [of items matches] by blast
    with parsed show ?thesis
      by (simp add: listener put_try_def matches_def)
  qed
  have unparsed: "requestListener rt now items req =
      (items, json_response 400 (JsonMessage ''Invalid request''))"
    if "JSON_parse rt (body req) = None"
    using that by (simp add: listener put_try_def)
  from found absent null_body unparsed show ?thesis
    unfolding matches_def ident_def by blast
qed

theorem put_outcomes_witness:
  "requestListener sample_runtime 9
     [\<lparr>id_field = Num 4, name = Undefined\<rparr>, \<lparr>id_field = Num 5, name = Value (JString ''X'')\<rparr>,
      \<lparr>id_field = Num 5, name = Value (JString ''X'')\<rparr>]
     \<lparr>method = ''PUT'', pathname = ''/items/5'', body = ''{\"name\":\"Y\"}''\<rparr> =
   ([\<lparr>id_field = Num 4, name = Undefined\<rparr>, \<lparr>id_field = Num 5, name = Value (JString ''Y'')\<rparr>,
     \<lparr>id_field = Num 5, name = Value (JString ''X'')\<rparr>],
    json_response 200 (JsonMessage ''Item updated''))
   \<and> requestListener sample_runtime 9 [\<lparr>id_field = Num 4, name = Undefined\<rparr>]
       \<lparr>method = ''PUT'', pathname = ''/items/5'', body = ''{\"name\":\"Y\"}''\<rparr> =
     ([\<lparr>id_field = Num 4, name = Undefined\<rparr>], json_response 404 (JsonMessage ''Item not found''))
   \<and> requestListener sample_runtime 9 [\<lparr>id_field = Num 5, name = Undefined\<rparr>]
       \<lparr>method = ''PUT'', pathname = ''/items/5'', body = ''null''\<rparr> =
     ([\<lparr>id_field = Num 5, name = Undefined\<rparr>], json_response 400 (JsonMessage ''Invalid request''))
   \<and> requestListener sample_runtime 9 [\<lparr>id_field = Num 5, name = Undefined\<rparr>]
       \<lparr>method = ''PUT'', pathname = ''/items/5'', body = ''{name''\<rparr> =
     ([\<lparr>id_field = Num 5, name = Undefined\<rparr>], json_response 400 (JsonMessage ''Invalid request''))"
proof -
  have five: "parseInt sample_runtime (idSegment ''/items/5'') = Num 5"
    by (simp add: sample_runtime_def idSegment_def parseInt_decimal_def isWhiteSpace_def
        isDigit_def digits_value_def)
  have parsed: "JSON_parse sample_runtime ''{\"name\":\"Y\"}'' = Some (JObject [(''name'', JString ''Y'')])"
    "JSON_parse sample_runtime ''null'' = Some JNull"
    "JSON_parse sample_runtime ''{name'' = None"
    by (simp_all add: sample_runtime_def parse_table_def)
  let ?store = "[\<lparr>id_field = Num 4, name = Undefined\<rparr>, \<lparr>id_field = Num 5, name = Value (JString ''X'')\<rparr>,
      \<lparr>id_field = Num 5, name = Value (JString ''X'')\<rparr>]"
  let ?put = "\<lparr>method = ''PUT'', pathname = ''/items/5'', body = ''{\"name\":\"Y\"}''\<rparr>"
  from put_outcomes [of ?put sample_runtime ?store 9]
  have "\<exists>i nm. i < length ?store
      \<and> strict_eq (id_field (?store ! i)) (Num 5)
      \<and> (\<forall>j<i. \<not> strict_eq (id_field (?store ! j)) (Num 5))
      \<and> dot_name (JObject [(''name'', JString ''Y'')]) = Inr nm
      \<and> requestListener sample_runtime 9 ?store ?put =
          (?store[i := (?store ! i)\<lparr>name := nm\<rparr>], json_response 200 (JsonMessage ''Item updated''))"
    by (simp add: startsWith_def five parsed strict_eq_def)
  then obtain i where i: "i < length ?store" "strict_eq (id_field (?store ! i)) (Num 5)"
    "\<forall>j<i. \<not> strict_eq (id_field (?store ! j)) (Num 5)"
    and upd: "requestListener sample_runtime 9 ?store ?put =
      (?store[i := (?store ! i)\<lparr>name := Value (JString ''Y'')\<rparr>],
       json_response 200 (JsonMessage ''Item updated''))"
    by auto
  have "i = 1"
  proof -
    from i(1) consider "i = 0" | "i = 1" | "i = 2" by fastforce
    then show ?thesis
    proof cases
      case 1
      with i(2) show ?thesis by (simp add: strict_eq_def)
    next
      case 2
      then show ?thesis .
    next
      case 3
      then have "1 < i" by simp
      with i(3) have "\<not> strict_eq (id_field (?store ! 1)) (Num 5)" by blast
      then show ?thesis by (simp add: strict_eq_def)
    qed
  qed
  with upd have first: "requestListener sample_runtime 9 ?store ?put =
      ([\<lparr>id_field = Num 4, name = Undefined\<rparr>, \<lparr>id_field = Num 5, name = Value (JString ''Y'')\<rparr>,
        \<lparr>id_field = Num 5, name = Value (JString ''X'')\<rparr>],
       json_response 200 (JsonMessage ''Item updated''))"
    by simp
  from put_outcomes [of ?put sample_runtime "[\<lparr>id_field = Num 4, name = Undefined\<rparr>]" 9]
  have second: "requestListener sample_runtime 9 [\<lparr>id_field = Num 4, name = Undefined\<rparr>] ?put =
      ([\<lparr>id_field = Num 4, name = Undefined\<rparr>], json_response 404 (JsonMessage ''Item not found''))"
    by (simp add: startsWith_def five parsed strict_eq_def)
  from put_outcomes [of "\<lparr>method = ''PUT'', pathname = ''/items/5'', body = ''null''\<rparr>"
      sample_runtime "[\<lparr>id_field = Num 5, name = Undefined\<rparr>]" 9]
  have third: "requestListener sample_runtime 9 [\<lparr>id_field = Num 5, name = Undefined\<rparr>]
       \<lparr>method = ''PUT'', pathname = ''/items/5'', body = ''null''\<rparr> =
     ([\<lparr>id_field = Num 5, name = Undefined\<rparr>], json_response 400 (JsonMessage ''Invalid request''))"
    by (simp add: startsWith_def five parsed strict_eq_def)
  from put_outcomes [of "\<lparr>method = ''PUT'', pathname = ''/items/5'', body = ''{name''\<rparr>"
      sample_runtime "[\<lparr>id_field = Num 5, name = Undefined\<rparr>]" 9]
  have fourth: "requestListener sample_runtime 9 [\<lparr>id_field = Num 5, name = Undefined\<rparr>]
       \<lparr>method = ''PUT'', pathname = ''/items/5'', body = ''{name''\<rparr> =
     ([\<lparr>id_field = Num 5, name = Undefined\<rparr>], json_response 400 (JsonMessage ''Invalid request''))"
    by (simp add: startsWith_def five parsed strict_eq_def)
  from first second third fourth show ?thesis by simp
qed

text \<open>
  C7. A PUT that is answered 200 changes only the name of the first item whose id matches:
  that item keeps its id, every other item is as before, and the order and the length of
  the store are unchanged.
\<close>

theorem put_success_frame:
  assumes "method req = ''PUT''" and "startsWith (pathname req) ''/items/''"
    and "requestListener rt now items req = (items', resp)" and "status resp = 200"
  shows "\<exists>i<length items.
           strict_eq (id_field (items ! i)) (parseInt rt (idSegment (pathname req)))
           \<and> (\<forall>j<i. \<not> strict_eq (id_field (items ! j)) (parseInt rt (idSegment (pathname req))))
           \<and> items' = items[i := (items ! i)\<lparr>name := name (items' ! i)\<rparr>]
           \<and> id_field (items' ! i) = id_field (items ! i)
           \<and> (\<forall>j<length items. j \<noteq> i \<longrightarrow> items' ! j = items ! j)
           \<and> length items' = length items
           \<and> map id_field items' = map id_field items"
proof -
  define ident where "ident = parseInt rt (idSegment (pathname req))"
  define matches :: "item \<Rightarrow> bool" where "matches = (\<lambda>item. strict_eq (id_field item) ident)"
  have listener: "(items', resp) =
      (case put_try rt items ident (body req) of
         Inr r \<Rightarrow> r
       | Inl error \<Rightarrow> (items, json_response 400 (JsonMessage ''Invalid request'')))"
    using assms(1-3) by (simp add: listener_put put_item_def ident_def)
  from listener assms(4) obtain v i nm where
    i: "findIndex matches items = Some i" and
    upd: "items' = items[i := (items ! i)\<lparr>name := nm\<rparr>]"
    by (auto simp: put_try_def json_response_def matches_def
        split: option.splits sum.splits)
  from findIndex_SomeD [OF i] have bound: "i < length items" and hit: "matches (items ! i)"
    and first: "\<forall>j<i. \<not> matches (items ! j)"
    by simp_all
  from bound upd have at_i: "items' ! i = (items ! i)\<lparr>name := nm\<rparr>"
    by simp
  have ids: "map id_field items' = map id_field items"
    using bound upd by (simp add: map_update list_update_same_conv)
  from bound upd at_i have "items' = items[i := (items ! i)\<lparr>name := name (items' ! i)\<rparr>]"
    by simp
  moreover from at_i have "id_field (items' ! i) = id_field (items ! i)"
    by simp
  moreover from upd have "\<forall>j<length items. j \<noteq> i \<longrightarrow> items' ! j = items ! j"
    by simp
  moreover from upd have "length items' = length items"
    by simp
  ultimately show ?thesis
    using bound hit first ids unfolding matches_def ident_def by blast
qed

theorem put_success_frame_witness:
  "requestListener sample_runtime 9
     [\<lparr>id_field = Num 4, name = Undefined\<rparr>, \<lparr>id_field = Num 5, name = Value (JString ''X'')\<rparr>,
      \<lparr>id_field = Num 5, name = Value (JString ''X'')\<rparr>]
     \<lparr>method = ''PUT'', pathname = ''/items/5'', body = ''{\"name\":\"Y\"}''\<rparr> =
   ([\<lparr>id_field = Num 4, name = Undefined\<rparr>, \<lparr>id_field = Num 5, name = Value (JString ''Y'')\<rparr>,
     \<lparr>id_field = Num 5, name = Value (JString ''X'')\<rparr>],
    json_response 200 (JsonMessage ''Item updated''))
   \<and> map id_field
        [\<lparr>id_field = Num 4, name = Undefined\<rparr>, \<lparr>id_field = Num 5, name = Value (JString ''Y'')\<rparr>,
         \<lparr>id_field = Num 5, name = Value (JString ''X'')\<rparr>] =
       map id_field
        [\<lparr>id_field = Num 4, name = Undefined\<rparr>, \<lparr>id_field = Num 5, name = Value (JString ''X'')\<rparr>,
         \<lparr>id_field = Num 5, name = Value (JString ''X'')\<rparr>]"
proof -
  let ?store = "[\<lparr>id_field = Num 4, name = Undefined\<rparr>, \<lparr>id_field = Num 5, name = Value (JString ''X'')\<rparr>,
      \<lparr>id_field = Num 5, name = Value (JString ''X'')\<rparr>]"
  let ?store' = "[\<lparr>id_field = Num 4, name = Undefined\<rparr>, \<lparr>id_field = Num 5, name = Value (JString ''Y'')\<rparr>,
      \<lparr>id_field = Num 5, name = Value (JString ''X'')\<rparr>]"
  let ?put = "\<lparr>method = ''PUT'', pathname = ''/items/5'', body = ''{\"name\":\"Y\"}''\<rparr>"
  have run: "requestListener sample_runtime 9 ?store ?put =
      (?store', json_response 200 (JsonMessage ''Item updated''))"
    by (simp add: sample_runtime_def parse_table_def requestListener_def startsWith_def
        put_item_def put_try_def Let_def idSegment_def parseInt_decimal_def isWhiteSpace_def isDigit_def
        digits_value_def strict_eq_def)
  have "\<exists>i<length ?store.
      strict_eq (id_field (?store ! i)) (parseInt sample_runtime (idSegment (pathname ?put)))
      \<and> (\<forall>j<i. \<not> strict_eq (id_field (?store ! j)) (parseInt sample_runtime (idSegment (pathname ?put))))
      \<and> ?store' = ?store[i := (?store ! i)\<lparr>name := name (?store' ! i)\<rparr>]
      \<and> id_field (?store' ! i) = id_field (?store ! i)
      \<and> (\<forall>j<length ?store. j \<noteq> i \<longrightarrow> ?store' ! j = ?store ! j)
      \<and> length ?store' = length ?store
      \<and> map id_field ?store' = map id_field ?store"
    by (rule put_success_frame [OF _ _ run]) (simp_all add: startsWith_def json_response_def)
  with run show ?thesis by blast
qed

section \<open>Routing\<close>

text \<open>
  On a request whose pathname is a string, at most one of the five route tests holds, and
  the listener runs the handler of the one that holds: the root path gets the HTML document
  with status 200, GET on \<^verbatim>\<open>/items\<close> the list as JSON with status 200, POST on
  \<^verbatim>\<open>/items\<close> the create handler, PUT and DELETE under \<^verbatim>\<open>/items/\<close> the update
  and delete handlers. When no test holds the answer is 404 with the JSON body
  \<^verbatim>\<open>{"message":"Not Found"}\<close>, and the store is unchanged.
\<close>

lemma router_precedence:
  "length (filter (\<lambda>t. t) (route_tests req)) \<le> 1
   \<and> (pathname req = ''/'' \<longrightarrow>
        requestListener rt now items req =
          (items, \<lparr>status = 200, contentType = ''text/html'', content = HtmlContent\<rparr>))
   \<and> (pathname req = ''/items'' \<and> method req = ''GET'' \<longrightarrow>
        requestListener rt now items req =
          (items, \<lparr>status = 200, contentType = ''application/json'', content = JsonItems items\<rparr>))
   \<and> (pathname req = ''/items'' \<and> method req = ''POST'' \<longrightarrow>
        requestListener rt now items req = post_items rt now items (body req))
   \<and> (startsWith (pathname req) ''/items/'' \<and> method req = ''PUT'' \<longrightarrow>
        requestListener rt now items req = put_item rt items (pathname req) (body req))
   \<and> (startsWith (pathname req) ''/items/'' \<and> method req = ''DELETE'' \<longrightarrow>
        requestListener rt now items req = delete_item rt items (pathname req))
   \<and> (\<not> list_ex (\<lambda>t. t) (route_tests req) \<longrightarrow>
        requestListener rt now items req =
          (items, \<lparr>status = 404, contentType = ''application/json'',
                    content = JsonMessage ''Not Found''\<rparr>))"
proof -
  have exclusive: "length (filter (\<lambda>t. t) (route_tests req)) \<le> 1"
  proof (cases "startsWith (pathname req) ''/items/''")
    case True
    with startsWith_items_not_root [of "pathname req"] show ?thesis
      by (simp add: route_tests_def)
  next
    case False
    then show ?thesis
      by (simp add: route_tests_def)
  qed
  have root: "requestListener rt now items req =
      (items, \<lparr>status = 200, contentType = ''text/html'', content = HtmlContent\<rparr>)"
    if "pathname req = ''/''"
    using that by (simp add: requestListener_def serveUI_def)
  have list: "requestListener rt now items req =
      (items, \<lparr>status = 200, contentType = ''application/json'', content = JsonItems items\<rparr>)"
    if "pathname req = ''/items''" and "method req = ''GET''"
    using that by (simp add: listener_get json_response_def)
  have none: "requestListener rt now items req =
      (items, \<lparr>status = 404, contentType = ''application/json'', content = JsonMessage ''Not Found''\<rparr>)"
    if "\<not> list_ex (\<lambda>t. t) (route_tests req)"
    using that by (auto simp: route_tests_def requestListener_def json_response_def)
  from exclusive root list none show ?thesis
    by (simp add: listener_post listener_put listener_delete)
qed

lemma router_precedence_examples:
  "requestListener sample_runtime 9 [\<lparr>id_field = Num 5, name = Undefined\<rparr>]
     \<lparr>method = ''GET'', pathname = ''/nothing'', body = ''''\<rparr> =
   ([\<lparr>id_field = Num 5, name = Undefined\<rparr>],
    \<lparr>status = 404, contentType = ''application/json'', content = JsonMessage ''Not Found''\<rparr>)
   \<and> requestListener sample_runtime 9 [\<lparr>id_field = Num 5, name = Undefined\<rparr>]
       \<lparr>method = ''DELETE'', pathname = ''/'', body = ''''\<rparr> =
     ([\<lparr>id_field = Num 5, name = Undefined\<rparr>],
      \<lparr>status = 200, contentType = ''text/html'', content = HtmlContent\<rparr>)
   \<and> requestListener sample_runtime 9 [\<lparr>id_field = Num 5, name = Undefined\<rparr>]
       \<lparr>method = ''GET'', pathname = ''/items'', body = ''''\<rparr> =
     ([\<lparr>id_field = Num 5, name = Undefined\<rparr>],
      \<lparr>status = 200, contentType = ''application/json'',
         content = JsonItems [\<lparr>id_field = Num 5, name = Undefined\<rparr>]\<rparr>)
   \<and> requestListener sample_runtime 9 [\<lparr>id_field = Num 5, name = Undefined\<rparr>]
       \<lparr>method = ''POST'', pathname = ''/items'', body = ''{}''\<rparr> =
     post_items sample_runtime 9 [\<lparr>id_field = Num 5, name = Undefined\<rparr>] ''{}''
   \<and> requestListener sample_runtime 9 [\<lparr>id_field = Num 5, name = Undefined\<rparr>]
       \<lparr>method = ''PUT'', pathname = ''/items/5'', body = ''{}''\<rparr> =
     put_item sample_runtime [\<lparr>id_field = Num 5, name = Undefined\<rparr>] ''/items/5'' ''{}''
   \<and> requestListener sample_runtime 9 [\<lparr>id_field = Num 5, name = Undefined\<rparr>]
       \<lparr>method = ''DELETE'', pathname = ''/items/5'', body = ''''\<rparr> =
     delete_item sample_runtime [\<lparr>id_field = Num 5, name = Undefined\<rparr>] ''/items/5''
   \<and> requestListener sample_runtime 9 [\<lparr>id_field = Num 5, name = Undefined\<rparr>]
       \<lparr>method = ''GET'', pathname = ''/items/5'', body = ''''\<rparr> =
     ([\<lparr>id_field = Num 5, name = Undefined\<rparr>],
      \<lparr>status = 404, contentType = ''application/json'', content = JsonMessage ''Not Found''\<rparr>)"
  using
    router_precedence [of "\<lparr>method = ''GET'', pathname = ''/nothing'', body = ''''\<rparr>"
      sample_runtime 9 "[\<lparr>id_field = Num 5, name = Undefined\<rparr>]"]
    router_precedence [of "\<lparr>method = ''DELETE'', pathname = ''/'', body = ''''\<rparr>"
      sample_runtime 9 "[\<lparr>id_field = Num 5, name = Undefined\<rparr>]"]
    router_precedence [of "\<lparr>method = ''GET'', pathname = ''/items'', body = ''''\<rparr>"
      sample_runtime 9 "[\<lparr>id_field = Num 5, name = Undefined\<rparr>]"]
    router_precedence [of "\<lparr>method = ''POST'', pathname = ''/items'', body = ''{}''\<rparr>"
      sample_runtime 9 "[\<lparr>id_field = Num 5, name = Undefined\<rparr>]"]
    router_precedence [of "\<lparr>method = ''PUT'', pathname = ''/items/5'', body = ''{}''\<rparr>"
      sample_runtime 9 "[\<lparr>id_field = Num 5, name = Undefined\<rparr>]"]
    router_precedence [of "\<lparr>method = ''DELETE'', pathname = ''/items/5'', body = ''''\<rparr>"
      sample_runtime 9 "[\<lparr>id_field = Num 5, name = Undefined\<rparr>]"]
    router_precedence [of "\<lparr>method = ''GET'', pathname = ''/items/5'', body = ''''\<rparr>"
      sample_runtime 9 "[\<lparr>id_field = Num 5, name = Undefined\<rparr>]"]
  by (simp add: route_tests_def startsWith_def)

lemma server_string_pathname:
  "parsedUrl_pathname inc = Some p \<Longrightarrow>
   server rt now items inc =
     Inr (requestListener rt now items
            \<lparr>method = request_method inc, pathname = p, body = request_body inc\<rparr>)"
  by (simp add: server_def requestListener_def)

text \<open>
  C4. The claim promises a 404 with the body \<^verbatim>\<open>{"message":"Not Found"}\<close> to every
  request that matches none of the five routes. A request whose parsed pathname is
  \<^verbatim>\<open>null\<close> matches none of them, and the listener throws a TypeError instead of
  answering: the final \<^verbatim>\<open>else\<close> is never reached.
\<close>

theorem server_null_pathname_throws:
  "server sample_runtime 1700000000000 [\<lparr>id_field = Num 5, name = Undefined\<rparr>]
     \<lparr>request_method = ''GET'', parsedUrl_pathname = None, request_body = ''''\<rparr> =
   Inl TypeError
   \<and> server sample_runtime 1700000000000 [\<lparr>id_field = Num 5, name = Undefined\<rparr>]
     \<lparr>request_method = ''GET'', parsedUrl_pathname = None, request_body = ''''\<rparr> \<noteq>
   Inr ([\<lparr>id_field = Num 5, name = Undefined\<rparr>], json_response 404 (JsonMessage ''Not Found''))"
  by (simp add: server_def)

section \<open>What the store holds\<close>

lemma listener_id_origin:
  assumes "it \<in> set (fst (requestListener rt now items req))"
  shows "(\<exists>old\<in>set items. id_field it = id_field old)
         \<or> (method req = ''POST'' \<and> pathname req = ''/items'' \<and> id_field it = Num (of_int now))"
proof -
  have post: "(\<exists>old\<in>set items. id_field it = id_field old) \<or> id_field it = Num (of_int now)"
    if "it \<in> set (fst (post_items rt now items b))" for b
    using that by (auto simp: post_items_def post_try_def split: option.splits sum.splits)
  have put: "\<exists>old\<in>set items. id_field it = id_field old"
    if "it \<in> set (fst (put_item rt items p b))" for p b
  proof -
    have "\<exists>old\<in>set items. id_field it = id_field old"
      if "it \<in> set (items[i := (items ! i)\<lparr>name := nm\<rparr>])" and "i < length items" for i nm
    proof -
      from that(1) have "it = (items ! i)\<lparr>name := nm\<rparr> \<or> it \<in> set items"
        using set_update_subset_insert [of items i "(items ! i)\<lparr>name := nm\<rparr>"] by auto
      with that(2) show ?thesis
        by (auto intro: bexI [of _ "items ! i"])
    qed
    with that show ?thesis
      by (auto simp: put_item_def put_try_def Let_def split: option.splits sum.splits
          dest: findIndex_SomeD)
  qed
  have delete: "\<exists>old\<in>set items. id_field it = id_field old"
    if "it \<in> set (fst (delete_item rt items p))" for p
    using that by (auto simp: delete_item_def Let_def)
  from assms post put delete show ?thesis
    by (auto simp: requestListener_def split: if_splits)
qed

lemma run_id_origin:
  "it \<in> set (run rt items events) \<Longrightarrow>
   (\<exists>old\<in>set items. id_field it = id_field old)
   \<or> (\<exists>(now, req)\<in>set events.
         method req = ''POST'' \<and> pathname req = ''/items'' \<and> id_field it = Num (of_int now))"
proof (induction events arbitrary: items)
  case Nil
  then show ?case by auto
next
  case (Cons e events)
  obtain now req where e: "e = (now, req)" by (cases e)
  from Cons.prems e have "it \<in> set (run rt (fst (requestListener rt now items req)) events)"
    by simp
  from Cons.IH [OF this] consider
    old where "old \<in> set (fst (requestListener rt now items req))" "id_field it = id_field old"
    | "\<exists>(now, req)\<in>set events.
         method req = ''POST'' \<and> pathname req = ''/items'' \<and> id_field it = Num (of_int now)"
    by blast
  then show ?case
  proof cases
    case 1
    from listener_id_origin [OF 1(1)] 1(2) e show ?thesis by auto
  next
    case 2
    then show ?thesis by auto
  qed
qed

lemma listener_keeps_string_names:
  assumes "\<forall>it\<in>set items. isString (name it)"
    and "method req = ''POST'' \<or> method req = ''PUT'' \<longrightarrow>
         (\<forall>v nm. JSON_parse rt (body req) = Some v \<and> dot_name v = Inr nm \<longrightarrow> isString nm)"
  shows "\<forall>it\<in>set (fst (requestListener rt now items req)). isString (name it)"
proof -
  have post: "\<forall>it\<in>set (fst (post_items rt now items (body req))). isString (name it)"
    if "method req = ''POST''"
    using assms that by (auto simp: post_items_def post_try_def split: option.splits sum.splits)
  have put: "\<forall>it\<in>set (fst (put_item rt items p (body req))). isString (name it)"
    if "method req = ''PUT''" for p
  proof -
    have "isString (name it)"
      if "it \<in> set (items[i := (items ! i)\<lparr>name := nm\<rparr>])" and "isString nm" for it i nm
    proof -
      from that(1) have "it = (items ! i)\<lparr>name := nm\<rparr> \<or> it \<in> set items"
        using set_update_subset_insert [of items i "(items ! i)\<lparr>name := nm\<rparr>"] by auto
      with assms(1) that(2) show ?thesis by auto
    qed
    with assms \<open>method req = ''PUT''\<close> show ?thesis
      by (auto simp: put_item_def put_try_def Let_def split: option.splits sum.splits)
  qed
  have delete: "\<forall>it\<in>set (fst (delete_item rt items p)). isString (name it)" for p
    using assms(1) by (simp add: delete_item_def Let_def)
  from assms(1) post put delete show ?thesis
    by (simp add: requestListener_def)
qed

lemma run_keeps_string_names:
  "\<forall>it\<in>set items. isString (name it) \<Longrightarrow>
   \<forall>(now, req)\<in>set events. method req = ''POST'' \<or> method req = ''PUT'' \<longrightarrow>
     (\<forall>v nm. JSON_parse rt (body req) = Some v \<and> dot_name v = Inr nm \<longrightarrow> isString nm) \<Longrightarrow>
   \<forall>it\<in>set (run rt items events). isString (name it)"
proof (induction events arbitrary: items)
  case Nil
  then show ?case by simp
next
  case (Cons e events)
  obtain now req where e: "e = (now, req)" by (cases e)
  from Cons.prems(2) e have here: "method req = ''POST'' \<or> method req = ''PUT'' \<longrightarrow>
      (\<forall>v nm. JSON_parse rt (body req) = Some v \<and> dot_name v = Inr nm \<longrightarrow> isString nm)"
    by auto
  from Cons.prems(2) have rest: "\<forall>(now, req)\<in>set events. method req = ''POST'' \<or> method req = ''PUT'' \<longrightarrow>
      (\<forall>v nm. JSON_parse rt (body req) = Some v \<and> dot_name v = Inr nm \<longrightarrow> isString nm)"
    by auto
  from Cons.prems(1) here
  have "\<forall>it\<in>set (fst (requestListener rt now items req)). isString (name it)"
    by (rule listener_keeps_string_names)
  from Cons.IH [OF this rest] e show ?case by simp
qed

text \<open>
  C6, as stated, fails: the name of a stored item need not be a string. A POST whose body
  is an object without a \<^verbatim>\<open>name\<close> stores an item whose name is \<^verbatim>\<open>undefined\<close>.
\<close>

theorem post_without_name_counterexample:
  "run sample_runtime []
     [(1700000000000, \<lparr>method = ''POST'', pathname = ''/items'', body = ''{}''\<rparr>)] =
   [\<lparr>id_field = Num 1700000000000, name = Undefined\<rparr>]
   \<and> \<not> isString (name \<lparr>id_field = Num 1700000000000, name = Undefined\<rparr>)"
  by (simp add: sample_runtime_def parse_table_def requestListener_def post_items_def post_try_def)

text \<open>
  C6, amended. In every store reached from the empty store by any sequence of requests,
  every stored item has an id that is a number and an integer (so neither \<^verbatim>\<open>null\<close>
  nor \<^verbatim>\<open>NaN\<close>): the clock reading of one of the sequence's POST requests on
  \<^verbatim>\<open>/items\<close>. Every stored item has a name that is a string, provided that in every
  POST and PUT request of the sequence whose body parses to a value other than
  \<^verbatim>\<open>null\<close>, that value's \<^verbatim>\<open>name\<close> is a string.
\<close>

theorem reachable_store_invariant:
  "(\<forall>it\<in>set (run rt [] events).
      isInteger (id_field it)
      \<and> (\<exists>(now, req)\<in>set events.
            method req = ''POST'' \<and> pathname req = ''/items'' \<and> id_field it = Num (of_int now)))
   \<and> ((\<forall>(now, req)\<in>set events. method req = ''POST'' \<or> method req = ''PUT'' \<longrightarrow>
          (\<forall>v nm. JSON_parse rt (body req) = Some v \<and> dot_name v = Inr nm \<longrightarrow> isString nm)) \<longrightarrow>
        (\<forall>it\<in>set (run rt [] events). isString (name it)))"
proof -
  have origin: "\<exists>(now, req)\<in>set events.
      method req = ''POST'' \<and> pathname req = ''/items'' \<and> id_field it = Num (of_int now)"
    if "it \<in> set (run rt [] events)" for it
    using run_id_origin [OF that] by simp
  have integer: "isInteger (id_field it)" if "it \<in> set (run rt [] events)" for it
    using origin [OF that] by auto
  have names: "\<forall>it\<in>set (run rt [] events). isString (name it)"
    if "\<forall>(now, req)\<in>set events. method req = ''POST'' \<or> method req = ''PUT'' \<longrightarrow>
          (\<forall>v nm. JSON_parse rt (body req) = Some v \<and> dot_name v = Inr nm \<longrightarrow> isString nm)"
    using run_keeps_string_names [OF _ that, of "[]"] by simp
  from origin integer names show ?thesis by blast
qed

theorem reachable_store_invariant_witness:
  "run sample_runtime []
     [(1700000000000, \<lparr>method = ''POST'', pathname = ''/items'', body = ''{\"name\":\"X\"}''\<rparr>),
      (1700000000001, \<lparr>method = ''POST'', pathname = ''/items'', body = ''{\"name\":\"X\"}''\<rparr>),
      (1700000000002, \<lparr>method = ''PUT'', pathname = ''/items/1700000000001'', body = ''{\"name\":\"Y\"}''\<rparr>)] =
   [\<lparr>id_field = Num 1700000000000, name = Value (JString ''X'')\<rparr>,
    \<lparr>id_field = Num 1700000000001, name = Value (JString ''Y'')\<rparr>]
   \<and> isInteger (id_field \<lparr>id_field = Num 1700000000000, name = Value (JString ''X'')\<rparr>)
   \<and> isInteger (id_field \<lparr>id_field = Num 1700000000001, name = Value (JString ''Y'')\<rparr>)
   \<and> isString (name \<lparr>id_field = Num 1700000000000, name = Value (JString ''X'')\<rparr>)
   \<and> isString (name \<lparr>id_field = Num 1700000000001, name = Value (JString ''Y'')\<rparr>)"
proof -
  let ?events = "[(1700000000000, \<lparr>method = ''POST'', pathname = ''/items'', body = ''{\"name\":\"X\"}''\<rparr>),
      (1700000000001, \<lparr>method = ''POST'', pathname = ''/items'', body = ''{\"name\":\"X\"}''\<rparr>),
      (1700000000002, \<lparr>method = ''PUT'', pathname = ''/items/1700000000001'', body = ''{\"name\":\"Y\"}''\<rparr>)]"
  have parsed:
    "JSON_parse sample_runtime ''{\"name\":\"X\"}'' = Some (JObject [(''name'', JString ''X'')])"
    "JSON_parse sample_runtime ''{\"name\":\"Y\"}'' = Some (JObject [(''name'', JString ''Y'')])"
    by (simp_all add: sample_runtime_def parse_table_def)
  have target: "parseInt sample_runtime (idSegment ''/items/1700000000001'') = Num 1700000000001"
    by (simp add: sample_runtime_def idSegment_def parseInt_decimal_def isWhiteSpace_def
        isDigit_def digits_value_def)
  have run: "run sample_runtime [] ?events =
      [\<lparr>id_field = Num 1700000000000, name = Value (JString ''X'')\<rparr>,
       \<lparr>id_field = Num 1700000000001, name = Value (JString ''Y'')\<rparr>]"
    by (simp add: parsed target requestListener_def startsWith_def post_items_def post_try_def
        put_item_def put_try_def Let_def strict_eq_def)
  from reachable_store_invariant [of sample_runtime ?events]
  have "isInteger (id_field \<lparr>id_field = Num 1700000000000, name = Value (JString ''X'')\<rparr>)
      \<and> isInteger (id_field \<lparr>id_field = Num 1700000000001, name = Value (JString ''Y'')\<rparr>)
      \<and> isString (name \<lparr>id_field = Num 1700000000000, name = Value (JString ''X'')\<rparr>)
      \<and> isString (name \<lparr>id_field = Num 1700000000001, name = Value (JString ''Y'')\<rparr>)"
    unfolding run by (simp add: parsed)
  with run show ?thesis by blast
qed

section \<open>Division in the calculator\<close>

text \<open>
  C10. With the operation \<^verbatim>\<open>div\<close>, \<^verbatim>\<open>Calculate\<close> returns the text
  \<^verbatim>\<open>Error: Division by zero!\<close> when the second operand is zero and the quotient of the
  two operands for every other second operand. In the zero case the division is not
  evaluated: the result is the same whatever the division operator computes.
\<close>

theorem calculate_div:
  "(num2 = Num 0 \<longrightarrow> Calculate ar num1 num2 ''div'' = Text ''Error: Division by zero!'')
   \<and> (num2 \<noteq> Num 0 \<longrightarrow> Calculate ar num1 num2 ''div'' = Number (divide_op ar num1 num2))
   \<and> Calculate ar num1 (Num 0) ''div'' = Calculate ar' num1 (Num 0) ''div''"
  by (auto simp: Calculate_def strict_eq_def)

theorem calculate_div_witness:
  "\<forall>ar. Calculate ar (Num 6) (Num 0) ''div'' = Text ''Error: Division by zero!''
     \<and> Calculate ar (Num 6) (Num 3) ''div'' = Number (divide_op ar (Num 6) (Num 3))
     \<and> Calculate ar (Num 6) NaN ''div'' = Number (divide_op ar (Num 6) NaN)"
proof
  fix ar
  from calculate_div [of "Num 0" ar "Num 6" ar] calculate_div [of "Num 3" ar "Num 6" ar]
    calculate_div [of NaN ar "Num 6" ar]
  show "Calculate ar (Num 6) (Num 0) ''div'' = Text ''Error: Division by zero!''
     \<and> Calculate ar (Num 6) (Num 3) ''div'' = Number (divide_op ar (Num 6) (Num 3))
     \<and> Calculate ar (Num 6) NaN ''div'' = Number (divide_op ar (Num 6) NaN)"
    by simp
qed

end
